theory Spec2Isabelle
  imports Main
begin

section \<open>The specification check of zappr: \<^verbatim>\<open>src/server/checks/Specification.js\<close>\<close>

text \<open>
  The check receives a pull-request hook payload, decides whether the event is one it
  acts on, runs three evaluators (title, template, body) and writes one commit status.
  This theory embeds the file function by function. Exceptions and rejected promises are
  values of a sum type, the calls to the GitHub service are recorded in a trace, and the
  two regular expressions of the file are syntax trees run by a small matcher.

  Strings are lists of code units. HOL's \<^typ>\<open>char\<close> has 256 values, so the model covers
  the strings whose code units are below 256; \<open>length\<close> is then JavaScript's \<open>.length\<close>.
  The text fields of a payload (action, state, title, body) are strings when present.
\<close>

subsection \<open>Errors and number formatting\<close>

datatype error = Error string | TypeError string

fun message :: "error \<Rightarrow> string" where
  "message (Error m) = m"
| "message (TypeError m) = m"

text \<open>Destructuring with a default, \<^verbatim>\<open>{ x = d } = obj\<close>: the default stands in for an absent field.\<close>

definition default :: "'a \<Rightarrow> 'a option \<Rightarrow> 'a" where
  "default d x = (case x of None \<Rightarrow> d | Some v \<Rightarrow> v)"

text \<open>
  Template literals print numbers in decimal. Lengths are naturals and the configured
  \<^verbatim>\<open>length\<close> is an integer (decimal printing is what JavaScript does below \<open>10^21\<close>).
\<close>

definition digit_char :: "nat \<Rightarrow> char" where
  "digit_char d = ''0123456789'' ! d"

fun string_of_nat :: "nat \<Rightarrow> string" where
  "string_of_nat n =
     (if n < 10 then [digit_char n] else string_of_nat (n div 10) @ [digit_char (n mod 10)])"

declare string_of_nat.simps [simp del]

definition string_of_int :: "int \<Rightarrow> string" where
  "string_of_int i = (if i < 0 then ''-'' @ string_of_nat (nat (- i)) else string_of_nat (nat i))"

subsection \<open>Regular expressions\<close>

text \<open>
  Character classes as JavaScript reads them without the \<^verbatim>\<open>u\<close> flag: \<^verbatim>\<open>\d\<close> is \<open>0-9\<close>,
  \<^verbatim>\<open>\w\<close> is \<open>A-Za-z0-9_\<close>, and \<^verbatim>\<open>\s\<close> (also what \<^verbatim>\<open>trim\<close> strips) is, below 256,
  tab, line feed, vertical tab, form feed, carriage return, space and no-break space.
\<close>

definition is_digit :: "char \<Rightarrow> bool" where
  "is_digit c = (48 \<le> (of_char c :: nat) \<and> (of_char c :: nat) \<le> 57)"

definition is_lower :: "char \<Rightarrow> bool" where
  "is_lower c = (97 \<le> (of_char c :: nat) \<and> (of_char c :: nat) \<le> 122)"

definition is_upper :: "char \<Rightarrow> bool" where
  "is_upper c = (65 \<le> (of_char c :: nat) \<and> (of_char c :: nat) \<le> 90)"

definition is_word :: "char \<Rightarrow> bool" where
  "is_word c = (is_lower c \<or> is_upper c \<or> is_digit c \<or> c = CHR ''_'')"

definition is_space :: "char \<Rightarrow> bool" where
  "is_space c = ((of_char c :: nat) \<in> {9, 10, 11, 12, 13, 32, 160})"

definition to_upper :: "char \<Rightarrow> char" where
  "to_upper c = (if is_lower c then char_of ((of_char c :: nat) - 32) else c)"

definition to_lower :: "char \<Rightarrow> char" where
  "to_lower c = (if is_upper c then char_of ((of_char c :: nat) + 32) else c)"

datatype atom = Lit char | Range char char | Word_class | Digit_class | Space_class

text \<open>
  The syntax of a pattern: the empty pattern, a character class \<^verbatim>\<open>[...]\<close> (negated when
  the flag is set), the assertions \<^verbatim>\<open>^\<close>, \<^verbatim>\<open>$\<close> and \<^verbatim>\<open>\b\<close>, sequence, alternative, and the
  quantifier \<^verbatim>\<open>{lo,hi}\<close> with \<open>hi = None\<close> for "no upper bound". Groups only nest, so they
  are the tree itself.
\<close>

datatype regex =
    Eps
  | Class bool "atom list"
  | Bol
  | Eol
  | Word_boundary
  | Seq regex regex
  | Alt regex regex
  | Rep nat "nat option" regex

fun atom_has :: "atom \<Rightarrow> char \<Rightarrow> bool" where
  "atom_has (Lit d) c = (c = d)"
| "atom_has (Range a b) c = ((of_char a :: nat) \<le> of_char c \<and> (of_char c :: nat) \<le> of_char b)"
| "atom_has Word_class c = is_word c"
| "atom_has Digit_class c = is_digit c"
| "atom_has Space_class c = is_space c"

text \<open>
  With the \<^verbatim>\<open>i\<close> flag a character is in a class when some member of the class has the same
  canonical (upper-case) form. Only the ASCII letters are folded here, which is exact for
  classes whose letters are ASCII, as all classes of this file are.
\<close>

definition class_has :: "bool \<Rightarrow> atom list \<Rightarrow> char \<Rightarrow> bool" where
  "class_has ic as c =
     list_ex (\<lambda>a. atom_has a c \<or> (ic \<and> (atom_has a (to_upper c) \<or> atom_has a (to_lower c)))) as"

definition word_before :: "string \<Rightarrow> nat \<Rightarrow> bool" where
  "word_before s i = (0 < i \<and> i \<le> length s \<and> is_word (s ! (i - 1)))"

definition word_at :: "string \<Rightarrow> nat \<Rightarrow> bool" where
  "word_at s i = (i < length s \<and> is_word (s ! i))"

text \<open>
  The matcher works on positions of the subject string: \<open>ends r ic s ps\<close> lists every
  position at which a match of \<open>r\<close> that starts at a position of \<open>ps\<close> can end. A
  backtracking matcher finds a match exactly when one exists, so this decides
  \<^verbatim>\<open>RegExp.prototype.test\<close>. An unbounded quantifier is the closure of one more iteration,
  computed breadth first over the positions \<open>0..n\<close> not seen yet.
\<close>

function closure :: "nat \<Rightarrow> (nat list \<Rightarrow> nat list) \<Rightarrow> nat list \<Rightarrow> nat list \<Rightarrow> nat list" where
  "closure n f seen front =
     (let new = remdups (filter (\<lambda>j. j \<le> n \<and> j \<notin> set seen) (f front))
      in if new = [] then seen else closure n f (seen @ new) new)"
  by pat_completeness auto
termination
proof (relation "measure (\<lambda>(n, f, seen, front). card ({..n} - set seen))")
  show "wf (measure (\<lambda>(n, f, seen, front). card ({..n} - set seen)))" by simp
next
  fix n :: nat and f :: "nat list \<Rightarrow> nat list" and seen front new :: "nat list"
  assume new: "new = remdups (filter (\<lambda>j. j \<le> n \<and> j \<notin> set seen) (f front))"
    and ne: "new \<noteq> []"
  from ne obtain j where j: "j \<in> set new" by (cases new) auto
  with new have "j \<le> n" "j \<notin> set seen" by auto
  with j have "{..n} - set (seen @ new) \<subset> {..n} - set seen" by auto
  then have "card ({..n} - set (seen @ new)) < card ({..n} - set seen)"
    by (intro psubset_card_mono) auto
  then show "((n, f, seen @ new, new), (n, f, seen, front))
      \<in> measure (\<lambda>(n, f, seen, front). card ({..n} - set seen))"
    by simp
qed

declare closure.simps [simp del]

primrec upto_times :: "nat \<Rightarrow> (nat list \<Rightarrow> nat list) \<Rightarrow> nat list \<Rightarrow> nat list" where
  "upto_times 0 f ps = ps"
| "upto_times (Suc k) f ps = ps @ upto_times k f (f ps)"

primrec ends :: "regex \<Rightarrow> bool \<Rightarrow> string \<Rightarrow> nat list \<Rightarrow> nat list" where
  "ends Eps ic s ps = ps"
| "ends (Class neg as) ic s ps =
     map Suc (filter (\<lambda>i. i < length s \<and> class_has ic as (s ! i) \<noteq> neg) ps)"
| "ends Bol ic s ps = filter (\<lambda>i. i = 0) ps"
| "ends Eol ic s ps = filter (\<lambda>i. i = length s) ps"
| "ends Word_boundary ic s ps = filter (\<lambda>i. word_before s i \<noteq> word_at s i) ps"
| "ends (Seq a b) ic s ps = ends b ic s (ends a ic s ps)"
| "ends (Alt a b) ic s ps = ends a ic s ps @ ends b ic s ps"
| "ends (Rep lo hi a) ic s ps =
     (let base = remdups (((ends a ic s) ^^ lo) ps)
      in case hi of
           None \<Rightarrow> closure (length s) (ends a ic s) base base
         | Some h \<Rightarrow> remdups (upto_times (h - lo) (ends a ic s) base))"

text \<open>A regular expression object: the pattern and its \<^verbatim>\<open>i\<close> flag (no other flag is used).\<close>

record regexp =
  pattern :: regex
  ignoreCase :: bool

text \<open>\<^verbatim>\<open>test\<close> without the \<^verbatim>\<open>g\<close> flag: is there a match starting anywhere in the string?\<close>

definition test :: "regexp \<Rightarrow> string \<Rightarrow> bool" where
  "test re s = (ends (pattern re) (ignoreCase re) s [0..<Suc (length s)] \<noteq> [])"

abbreviation Chr :: "char \<Rightarrow> regex" where "Chr c \<equiv> Class False [Lit c]"
abbreviation Plus :: "regex \<Rightarrow> regex" where "Plus r \<equiv> Rep 1 None r"
abbreviation Star :: "regex \<Rightarrow> regex" where "Star r \<equiv> Rep 0 None r"
abbreviation Opt :: "regex \<Rightarrow> regex" where "Opt r \<equiv> Rep 0 (Some 1) r"
abbreviation Seqs :: "regex list \<Rightarrow> regex" where "Seqs rs \<equiv> foldr Seq rs Eps"

subsection \<open>Constants and pattern matchers\<close>

definition CHECK_TYPE :: string where
  "CHECK_TYPE = ''specification''"

definition ACTIONS :: "string list" where
  "ACTIONS = [''opened'', ''edited'', ''reopened'', ''synchronize'']"

definition DEFAULT_REQUIRED_LENGTH :: int where
  "DEFAULT_REQUIRED_LENGTH = 8"

text \<open>\<^verbatim>\<open>/^(?:[-\w]+\/[-\w]+)?#\d+$/\<close>\<close>

definition ISSUE_PATTERN :: regexp where
  "ISSUE_PATTERN =
     \<lparr>pattern =
        Seqs [Bol,
              Opt (Seqs [Plus (Class False [Lit CHR ''-'', Word_class]),
                         Chr CHR ''/'',
                         Plus (Class False [Lit CHR ''-'', Word_class])]),
              Chr CHR ''#'',
              Plus (Class False [Digit_class]),
              Eol],
      ignoreCase = False\<rparr>"

text \<open>
  Gruber's URL pattern, with the \<^verbatim>\<open>i\<close> flag. \<^verbatim>\<open>[^\s()<>]\<close> occurs five times and the
  balanced-parentheses group \<^verbatim>\<open>\(([^\s()<>]+|(\([^\s()<>]+\)))*\)\<close> twice; they are named
  once. The last class also excludes four curly quotes, code units above 255 that no string
  of the model contains; the two guillemets are \<open>0xAB\<close> and \<open>0xBB\<close>.
\<close>

definition no_space_paren :: regex where
  "no_space_paren =
     Class True [Space_class, Lit CHR ''('', Lit CHR '')'', Lit CHR ''<'', Lit CHR ''>'']"

definition balanced_parens :: regex where
  "balanced_parens =
     Seqs [Chr CHR ''('',
           Star (Alt (Plus no_space_paren)
                     (Seqs [Chr CHR ''('', Plus no_space_paren, Chr CHR '')''])),
           Chr CHR '')'']"

definition URL_PATTERN :: regexp where
  "URL_PATTERN =
     \<lparr>pattern =
        Seqs [Word_boundary,
              Alt (Seqs [Class False [Range CHR ''a'' CHR ''z''],
                         Plus (Class False [Word_class, Lit CHR ''-'']),
                         Chr CHR '':'',
                         Alt (Rep 1 (Some 3) (Chr CHR ''/''))
                             (Class False [Range CHR ''a'' CHR ''z'', Range CHR ''0'' CHR ''9'',
                                           Lit CHR ''%''])])
             (Alt (Seqs [Chr CHR ''w'', Chr CHR ''w'', Chr CHR ''w'',
                         Rep 0 (Some 3) (Class False [Digit_class]),
                         Class False [Lit CHR ''.'']])
                  (Seqs [Plus (Class False [Range CHR ''a'' CHR ''z'', Range CHR ''0'' CHR ''9'',
                                            Lit CHR ''.'', Lit CHR ''-'']),
                         Class False [Lit CHR ''.''],
                         Rep 2 (Some 4) (Class False [Range CHR ''a'' CHR ''z'']),
                         Chr CHR ''/''])),
              Plus (Alt (Plus no_space_paren) balanced_parens),
              Alt balanced_parens
                  (Class True [Space_class, Lit CHR 0x60, Lit CHR ''!'', Lit CHR ''('',
                               Lit CHR '')'', Lit CHR ''['', Lit CHR '']'', Lit CHR ''{'',
                               Lit CHR ''}'', Lit CHR '';'', Lit CHR '':'', Lit CHR 0x27,
                               Lit CHR 0x22, Lit CHR ''.'', Lit CHR '','', Lit CHR ''<'',
                               Lit CHR ''>'', Lit CHR ''?'', Lit CHR 0xAB, Lit CHR 0xBB])],
      ignoreCase = True\<rparr>"

definition MINIMUM_LENGTH :: string where
  "MINIMUM_LENGTH = ''minimum-length''"

definition CONTAINS_URL :: string where
  "CONTAINS_URL = ''contains-url''"

definition CONTAINS_ISSUE_NUMBER :: string where
  "CONTAINS_ISSUE_NUMBER = ''contains-issue-number''"

definition WAS_ADJUSTED :: string where
  "WAS_ADJUSTED = ''was-adjusted''"

text \<open>\<^verbatim>\<open>status(description, state = 'success')\<close>\<close>

record status_payload =
  st_description :: string
  st_state :: string
  st_context :: string

definition status :: "string \<Rightarrow> string option \<Rightarrow> status_payload" where
  "status d st =
     \<lparr>st_description = d, st_state = default ''success'' st,
      st_context = ''zappr/pr/specification''\<rparr>"

text \<open>\<^verbatim>\<open>str || ''\<close> on a string: the empty string is the only falsy one.\<close>

definition or_empty :: "string \<Rightarrow> string" where
  "or_empty str = (if str = [] then [] else str)"

definition isLongEnough :: "string \<Rightarrow> int \<Rightarrow> bool" where
  "isLongEnough str requiredLength = (int (length (or_empty str)) > requiredLength)"

text \<open>
  \<^verbatim>\<open>split\<close> with a separator: every separator character ends a token, so the result is never
  empty and adjacent separators give empty tokens. The source splits at the space character.
\<close>

fun split_on :: "(char \<Rightarrow> bool) \<Rightarrow> string \<Rightarrow> string list" where
  "split_on sep [] = [[]]"
| "split_on sep (c # cs) =
     (if sep c then [] # split_on sep cs
      else (case split_on sep cs of [] \<Rightarrow> [[c]] | t # ts \<Rightarrow> (c # t) # ts))"

definition containsPattern :: "regexp \<Rightarrow> string \<Rightarrow> bool" where
  "containsPattern re str = list_ex (\<lambda>s. test re s) (split_on (\<lambda>c. c = CHR '' '') (or_empty str))"

definition containsUrl :: "string \<Rightarrow> bool" where
  "containsUrl = containsPattern URL_PATTERN"

definition containsIssueNumber :: "string \<Rightarrow> bool" where
  "containsIssueNumber = containsPattern ISSUE_PATTERN"

subsection \<open>Configuration\<close>

text \<open>
  The configuration is read by destructuring with defaults, so every entry may be absent.
  \<^verbatim>\<open>minimum-length\<close> is an object with \<^verbatim>\<open>enabled\<close> and \<^verbatim>\<open>length\<close>; the other entries are
  flags.
\<close>

record length_check =
  lc_enabled :: "bool option"
  lc_length :: "int option"

record title_checks =
  title_minimum_length :: "length_check option"

record body_checks =
  body_minimum_length :: "length_check option"
  contains_url :: "bool option"
  contains_issue_number :: "bool option"

record template_checks =
  was_adjusted :: "bool option"

record specification_config =
  spec_title :: "title_checks option"
  spec_body :: "body_checks option"
  spec_template :: "template_checks option"

record config =
  config_specification :: "specification_config option"

text \<open>The empty object \<^verbatim>\<open>{}\<close> at each of these types.\<close>

definition no_length_check :: length_check where
  "no_length_check = \<lparr>lc_enabled = None, lc_length = None\<rparr>"

definition no_title_checks :: title_checks where
  "no_title_checks = \<lparr>title_minimum_length = None\<rparr>"

definition no_body_checks :: body_checks where
  "no_body_checks = \<lparr>body_minimum_length = None, contains_url = None, contains_issue_number = None\<rparr>"

definition no_template_checks :: template_checks where
  "no_template_checks = \<lparr>was_adjusted = None\<rparr>"

definition no_specification :: specification_config where
  "no_specification = \<lparr>spec_title = None, spec_body = None, spec_template = None\<rparr>"

subsection \<open>The title and body evaluators\<close>

text \<open>An evaluator passes by returning (\<open>Inr\<close>) and fails by throwing (\<open>Inl\<close>).\<close>

definition validateTitle :: "string \<Rightarrow> title_checks \<Rightarrow> error + unit" where
  "validateTitle title checks =
     (let minimumLength = default no_length_check (title_minimum_length checks);
          shouldCheckLength = default True (lc_enabled minimumLength);
          requiredLength = default DEFAULT_REQUIRED_LENGTH (lc_length minimumLength)
      in if shouldCheckLength \<and> \<not> isLongEnough title requiredLength
         then Inl (Error (''PR's title is too short ('' @ string_of_nat (length title) @ ''/''
                            @ string_of_int requiredLength @ '')''))
         else Inr ())"

record check_entry =
  enabled :: bool
  check_fn :: "unit \<Rightarrow> bool"

text \<open>
  The callback of \<^verbatim>\<open>reduce\<close> in \<^verbatim>\<open>_validateBody\<close>. Destructuring an entry that the mapping
  does not have would throw a TypeError; the three names the loop visits are all present.
\<close>

definition reducer ::
  "(string \<rightharpoonup> check_entry) \<Rightarrow> error + bool \<times> string list \<Rightarrow> string \<Rightarrow> error + bool \<times> string list"
where
  "reducer checksMapping acc checkName =
     (case acc of
        Inl e \<Rightarrow> Inl e
      | Inr (success, failedChecks) \<Rightarrow>
          (case checksMapping checkName of
             None \<Rightarrow> Inl (TypeError ''Cannot destructure property of undefined'')
           | Some entry \<Rightarrow>
               if enabled entry
               then (let res = check_fn entry ()
                     in Inr (success \<or> res,
                             if \<not> res then failedChecks @ [[CHR 0x27] @ checkName @ [CHR 0x27]]
                             else failedChecks))
               else Inr (success, failedChecks)))"

text \<open>\<^verbatim>\<open>`${failedChecks[0]}`\<close>: an index out of range reads \<^verbatim>\<open>undefined\<close>, printed as such.\<close>

definition first_or_undefined :: "string list \<Rightarrow> string" where
  "first_or_undefined xs = (case xs of [] \<Rightarrow> ''undefined'' | x # _ \<Rightarrow> x)"

definition validateBody :: "string \<Rightarrow> body_checks \<Rightarrow> error + unit" where
  "validateBody body checks =
     (let minimumLength = default no_length_check (body_minimum_length checks);
          shouldCheckLength = default True (lc_enabled minimumLength);
          requiredLength = default DEFAULT_REQUIRED_LENGTH (lc_length minimumLength);
          shouldCheckUrl = default True (contains_url checks);
          shouldCheckIssue = default True (contains_issue_number checks);
          checksMapping = map_of
            [(CONTAINS_URL, \<lparr>enabled = shouldCheckUrl, check_fn = (\<lambda>_. containsUrl body)\<rparr>),
             (CONTAINS_ISSUE_NUMBER,
                \<lparr>enabled = shouldCheckIssue, check_fn = (\<lambda>_. containsIssueNumber body)\<rparr>),
             (MINIMUM_LENGTH,
                \<lparr>enabled = shouldCheckLength, check_fn = (\<lambda>_. isLongEnough body requiredLength)\<rparr>)]
      in case foldl (reducer checksMapping) (Inr (False, []))
                [CONTAINS_ISSUE_NUMBER, CONTAINS_URL, MINIMUM_LENGTH] of
           Inl e \<Rightarrow> Inl e
         | Inr (success, failedChecks) \<Rightarrow>
             if \<not> success
             then Inl (Error (''PR's body failed check '' @ first_or_undefined failedChecks))
             else Inr ())"

subsection \<open>The GitHub service and the template evaluator\<close>

text \<open>
  The service is the constructor's parameter; its code is not part of the file. Both
  methods are asynchronous: the promise of \<^verbatim>\<open>readPullRequestTemplate\<close> is rejected (\<open>Inl\<close>)
  or fulfilled with the template, a missing template being \<open>None\<close>; the promise of
  \<^verbatim>\<open>setCommitStatus\<close> is rejected or fulfilled.
\<close>

record github =
  readPullRequestTemplate :: "string \<Rightarrow> string \<Rightarrow> string \<Rightarrow> error + string option"
  setCommitStatus :: "string \<Rightarrow> string \<Rightarrow> string \<Rightarrow> status_payload \<Rightarrow> string \<Rightarrow> error + unit"

text \<open>What a run does, in order: the evaluators it invokes and the service calls it issues.\<close>

datatype evaluator = Title | Template | Body

datatype event =
    Evaluate evaluator
  | ReadPullRequestTemplate string string string
  | SetCommitStatus string string string status_payload string

definition trim :: "string \<Rightarrow> string" where
  "trim s = rev (dropWhile is_space (rev (dropWhile is_space s)))"

definition differsFromPrTemplate :: "string \<Rightarrow> string \<Rightarrow> bool" where
  "differsFromPrTemplate content template = (trim content \<noteq> trim template)"

text \<open>
  \<^verbatim>\<open>_validateTemplate\<close> is an async function: the call runs up to the \<^verbatim>\<open>await\<close>, so the fetch
  is issued at once, and the rest decides how the returned promise settles. The result is
  the events of the call and the settled value. \<^verbatim>\<open>!template\<close> holds for a missing template
  and for the empty string; \<^verbatim>\<open>checks[WAS_ADJUSTED]\<close> is truthy only when set to true.
\<close>

definition validateTemplate ::
  "github \<Rightarrow> string \<Rightarrow> string \<Rightarrow> string \<Rightarrow> string \<Rightarrow> template_checks \<Rightarrow> event list \<times> (error + bool)"
where
  "validateTemplate gh body user repo token checks =
     (let shouldCheckWasAdjusted = (was_adjusted checks = Some True)
      in ([ReadPullRequestTemplate user repo token],
          case readPullRequestTemplate gh user repo token of
            Inl e \<Rightarrow> Inl e
          | Inr None \<Rightarrow> Inr True
          | Inr (Some template) \<Rightarrow>
              if template = [] then Inr True
              else if shouldCheckWasAdjusted \<and> differsFromPrTemplate body template
              then Inl (Error ''PR's body is the same as template'')
              else Inr True))"

subsection \<open>The hook payload, \<^verbatim>\<open>validate\<close> and \<^verbatim>\<open>execute\<close>\<close>

record pr_object =
  pr_state :: string
  pr_number :: nat
  pr_title :: "string option"
  pr_body :: "string option"
  pr_head_sha :: string

record repo_object =
  repo_full_name :: string
  repo_name :: string
  repo_owner_login :: string

record hook_payload =
  action :: string
  pull_request :: "pr_object option"
  repository :: repo_object

text \<open>The destructuring at the head of \<^verbatim>\<open>validate\<close>, with its defaults.\<close>

definition title_of :: "pr_object \<Rightarrow> string" where
  "title_of pr = default [] (pr_title pr)"

definition body_of :: "pr_object \<Rightarrow> string" where
  "body_of pr = default [] (pr_body pr)"

definition titleChecks_of :: "config \<Rightarrow> title_checks" where
  "titleChecks_of config =
     default no_title_checks (spec_title (default no_specification (config_specification config)))"

definition bodyChecks_of :: "config \<Rightarrow> body_checks" where
  "bodyChecks_of config =
     default no_body_checks (spec_body (default no_specification (config_specification config)))"

definition templateChecks_of :: "config \<Rightarrow> template_checks" where
  "templateChecks_of config =
     default no_template_checks
       (spec_template (default no_specification (config_specification config)))"

text \<open>
  The array handed to \<^verbatim>\<open>Promise.all\<close> is built left to right inside the \<^verbatim>\<open>try\<close>.
  \<^verbatim>\<open>_validateTitle\<close> and \<^verbatim>\<open>_validateBody\<close> are ordinary functions, so a failure of either is
  thrown while the array is being built and control passes to the \<^verbatim>\<open>catch\<close> at once: after
  a title failure the other two evaluators are never called, and after a body failure the
  promise of the template evaluator is left behind unobserved. Only when both return is the
  promise awaited, and its rejection is caught by the same \<^verbatim>\<open>catch\<close>. Either branch returns
  the promise of the status write without awaiting it, so that promise decides how
  \<^verbatim>\<open>validate\<close> settles.
\<close>

definition validate ::
  "github \<Rightarrow> config \<Rightarrow> pr_object \<Rightarrow> repo_object \<Rightarrow> string \<Rightarrow> event list \<times> (error + unit)"
where
  "validate gh config pr repo token =
     (let title = title_of pr;
          body = body_of pr;
          sha = pr_head_sha pr;
          user = repo_owner_login repo;
          report = (\<lambda>trace st.
            (trace @ [SetCommitStatus user (repo_name repo) sha st token],
             setCommitStatus gh user (repo_name repo) sha st token));
          failure = (\<lambda>trace e. report trace (status (message e) (Some ''failure'')))
      in case validateTitle title (titleChecks_of config) of
           Inl e \<Rightarrow> failure [Evaluate Title] e
         | Inr _ \<Rightarrow>
             (case validateTemplate gh body user (repo_name repo) token (templateChecks_of config) of
                (fetch, settled) \<Rightarrow>
                  (let trace = [Evaluate Title, Evaluate Template] @ fetch @ [Evaluate Body]
                   in case validateBody body (bodyChecks_of config) of
                        Inl e \<Rightarrow> failure trace e
                      | Inr _ \<Rightarrow>
                          (case settled of
                             Inl e \<Rightarrow> failure trace e
                           | Inr _ \<Rightarrow>
                               report trace (status ''PR has passed specification checks'' None)))))"

text \<open>
  \<^verbatim>\<open>execute\<close>. The guard is \<^verbatim>\<open>ACTIONS.indexOf(action) === -1 || !pr || 'open' !== pr.state\<close>;
  its branch builds a log line from \<^verbatim>\<open>repo.full_name\<close>, \<^verbatim>\<open>pr.number\<close> and \<^verbatim>\<open>pr.state\<close> before
  it returns. With no pull request the guard holds whatever the action is, and reading
  \<^verbatim>\<open>pr.number\<close> throws a TypeError (its wording depends on the engine), which rejects the
  promise of \<^verbatim>\<open>execute\<close>.
\<close>

definition execute ::
  "github \<Rightarrow> config \<Rightarrow> hook_payload \<Rightarrow> string \<Rightarrow> event list \<times> (error + unit)"
where
  "execute gh config hookPayload token =
     (case pull_request hookPayload of
        None \<Rightarrow> ([], Inl (TypeError ''Cannot read property 'number' of undefined''))
      | Some pr \<Rightarrow>
          if action hookPayload \<notin> set ACTIONS \<or> ''open'' \<noteq> pr_state pr
          then ([], Inr ())
          else validate gh config pr (repository hookPayload) token)"

subsection \<open>Vocabulary of the statements\<close>

fun is_status_write :: "event \<Rightarrow> bool" where
  "is_status_write (SetCommitStatus user repo sha st token) = True"
| "is_status_write e = False"

fun is_fetch :: "event \<Rightarrow> bool" where
  "is_fetch (ReadPullRequestTemplate user repo token) = True"
| "is_fetch e = False"

fun evaluators_run :: "event list \<Rightarrow> evaluator list" where
  "evaluators_run [] = []"
| "evaluators_run (Evaluate v # es) = v # evaluators_run es"
| "evaluators_run (e # es) = evaluators_run es"

text \<open>The switches and the threshold of the body evaluator, after defaults.\<close>

definition issue_check_enabled :: "body_checks \<Rightarrow> bool" where
  "issue_check_enabled checks = (contains_issue_number checks \<noteq> Some False)"

definition url_check_enabled :: "body_checks \<Rightarrow> bool" where
  "url_check_enabled checks = (contains_url checks \<noteq> Some False)"

definition length_check_enabled :: "length_check option \<Rightarrow> bool" where
  "length_check_enabled entry =
     (case entry of None \<Rightarrow> True | Some lc \<Rightarrow> lc_enabled lc \<noteq> Some False)"

definition required_length :: "length_check option \<Rightarrow> int" where
  "required_length entry =
     (case entry of None \<Rightarrow> 8
      | Some lc \<Rightarrow> (case lc_length lc of None \<Rightarrow> 8 | Some n \<Rightarrow> n))"

text \<open>
  The sub-checks of the body in the priority order issue number, URL, minimum length, each
  with its name, whether it is enabled and its result; and the name of the first enabled one
  that fails.
\<close>

definition sub_checks :: "string \<Rightarrow> body_checks \<Rightarrow> (string \<times> bool \<times> bool) list" where
  "sub_checks body checks =
     [(''contains-issue-number'', issue_check_enabled checks, containsIssueNumber body),
      (''contains-url'', url_check_enabled checks, containsUrl body),
      (''minimum-length'', length_check_enabled (body_minimum_length checks),
         int (length body) > required_length (body_minimum_length checks))]"

definition first_failing_check :: "string \<Rightarrow> body_checks \<Rightarrow> string option" where
  "first_failing_check body checks =
     map_option fst (find (\<lambda>(name, en, res). en \<and> \<not> res) (sub_checks body checks))"

text \<open>
  The issue reference in the words of the specification: an optional owner/repo prefix
  followed by \<open>#\<close> and one or more digits, the whole token. Some position \<open>h\<close> holds the
  \<open>#\<close>, the rest is a non-empty run of digits, and what precedes is empty or two non-empty
  names (letters, digits, \<open>_\<close> and \<open>-\<close>) around a \<open>/\<close> at some position \<open>m\<close>.
\<close>

definition is_name_char :: "char \<Rightarrow> bool" where
  "is_name_char c = (c = CHR ''-'' \<or> is_word c)"

definition is_owner_repo :: "string \<Rightarrow> bool" where
  "is_owner_repo pre =
     list_ex (\<lambda>m. pre ! m = CHR ''/'' \<and> 0 < m \<and> Suc m < length pre
                  \<and> list_all is_name_char (take m pre)
                  \<and> list_all is_name_char (drop (Suc m) pre))
       [0..<length pre]"

definition is_issue_reference :: "string \<Rightarrow> bool" where
  "is_issue_reference tok =
     list_ex (\<lambda>h. tok ! h = CHR ''#'' \<and> Suc h < length tok
                  \<and> list_all is_digit (drop (Suc h) tok)
                  \<and> (h = 0 \<or> is_owner_repo (take h tok)))
       [0..<length tok]"

text \<open>
  The issue-reference sub-check as the specification words it, with the body split on
  whitespace; \<open>containsIssueNumber\<close> above is the one of the source, which splits at spaces.
\<close>

definition containsIssueNumber_on_whitespace :: "string \<Rightarrow> bool" where
  "containsIssueNumber_on_whitespace body = list_ex is_issue_reference (split_on is_space body)"

subsection \<open>Concrete inputs\<close>

text \<open>
  A service whose template fetch settles as given and whose status write succeeds, the
  repository \<open>zalando/zappr\<close>, an open pull request with a title and a body, an \<open>opened\<close>
  event, and the configuration with no \<^verbatim>\<open>specification\<close> section.
\<close>

definition github_with :: "error + string option \<Rightarrow> github" where
  "github_with fetched =
     \<lparr>readPullRequestTemplate = (\<lambda>user repo token. fetched),
      setCommitStatus = (\<lambda>user repo sha st token. Inr ())\<rparr>"

definition zappr_repo :: repo_object where
  "zappr_repo = \<lparr>repo_full_name = ''zalando/zappr'', repo_name = ''zappr'', repo_owner_login = ''zalando''\<rparr>"

definition open_pr :: "string \<Rightarrow> string \<Rightarrow> pr_object" where
  "open_pr title body =
     \<lparr>pr_state = ''open'', pr_number = 7, pr_title = Some title, pr_body = Some body,
      pr_head_sha = ''c0ffee''\<rparr>"

definition opened :: "pr_object option \<Rightarrow> hook_payload" where
  "opened pr = \<lparr>action = ''opened'', pull_request = pr, repository = zappr_repo\<rparr>"

definition default_config :: config where
  "default_config = \<lparr>config_specification = None\<rparr>"

subsection \<open>Vocabulary of the proofs\<close>

text \<open>
  \<open>run P s i j\<close>: the positions from \<open>i\<close> up to \<open>j\<close> exist in \<open>s\<close> and hold characters
  satisfying \<open>P\<close>. \<open>char_step P s\<close> is one step of a class over such a character, and
  \<open>owner_repo_at s i j\<close> says that an owner/repo prefix lies between \<open>i\<close> and \<open>j\<close>.
\<close>

definition run :: "(char \<Rightarrow> bool) \<Rightarrow> string \<Rightarrow> nat \<Rightarrow> nat \<Rightarrow> bool" where
  "run P s i j = (\<forall>k. i \<le> k \<and> k < j \<longrightarrow> k < length s \<and> P (s ! k))"

definition char_step :: "(char \<Rightarrow> bool) \<Rightarrow> string \<Rightarrow> (nat \<times> nat) set" where
  "char_step P s = {(i, j). j = Suc i \<and> i < length s \<and> P (s ! i)}"

definition owner_repo_at :: "string \<Rightarrow> nat \<Rightarrow> nat \<Rightarrow> bool" where
  "owner_repo_at s i j =
     (\<exists>m. i < m \<and> run is_name_char s i m \<and> m < length s \<and> s ! m = CHR ''/''
          \<and> Suc m < j \<and> run is_name_char s (Suc m) j)"

definition any_passes :: "string \<Rightarrow> body_checks \<Rightarrow> bool" where
  "any_passes body checks =
     ((issue_check_enabled checks \<and> containsIssueNumber body)
      \<or> (url_check_enabled checks \<and> containsUrl body)
      \<or> (length_check_enabled (body_minimum_length checks)
          \<and> required_length (body_minimum_length checks) < int (length body)))"

section \<open>Properties\<close>

subsection \<open>The matcher on the issue pattern\<close>

lemma closure_set:
  assumes step: "\<And>ps. set (f ps) = R `` set ps"
    and front: "set front \<subseteq> set seen"
    and closed: "{(i, j). (i, j) \<in> R \<and> j \<le> n} `` (set seen - set front) \<subseteq> set seen"
  shows "set (closure n f seen front) = {(i, j). (i, j) \<in> R \<and> j \<le> n}\<^sup>* `` set seen"
  using assms
proof (induction n f seen front rule: closure.induct)
  case (1 n f seen front)
  define Rn where "Rn = {(i, j). (i, j) \<in> R \<and> j \<le> n}"
  define new where "new = remdups (filter (\<lambda>j. j \<le> n \<and> j \<notin> set seen) (f front))"
  have new_set: "set new = Rn `` set front - set seen"
    using "1.prems"(1) by (auto simp: new_def Rn_def)
  have closed: "Rn `` (set seen - set front) \<subseteq> set seen"
    using "1.prems"(3) by (simp add: Rn_def)
  show ?case
  proof (cases "new = []")
    case True
    then have "Rn `` set front \<subseteq> set seen"
      using new_set by auto
    with closed have "Rn `` set seen \<subseteq> set seen" by blast
    then have "Rn\<^sup>* `` set seen = set seen"
      by (rule Image_closed_trancl)
    moreover have "closure n f seen front = seen"
      using True by (subst closure.simps) (simp add: new_def Let_def)
    ultimately show ?thesis by (simp add: Rn_def)
  next
    case False
    have sub: "set new \<subseteq> Rn\<^sup>* `` set seen"
      using new_set "1.prems"(2) by auto
    have "Rn `` (set (seen @ new) - set new) \<subseteq> set (seen @ new)"
    proof
      fix j assume "j \<in> Rn `` (set (seen @ new) - set new)"
      then obtain i where i: "i \<in> set seen" "(i, j) \<in> Rn" by auto
      show "j \<in> set (seen @ new)"
      proof (cases "i \<in> set front")
        case True
        with i have "j \<in> Rn `` set front" by auto
        with new_set show ?thesis by auto
      next
        case False
        with i closed show ?thesis by auto
      qed
    qed
    then have "set (closure n f (seen @ new) new) = Rn\<^sup>* `` set (seen @ new)"
      using "1.IH" [OF new_def False "1.prems"(1)] by (simp add: Rn_def)
    also have "\<dots> = Rn\<^sup>* `` set seen"
    proof
      show "Rn\<^sup>* `` set (seen @ new) \<subseteq> Rn\<^sup>* `` set seen"
      proof
        fix j assume "j \<in> Rn\<^sup>* `` set (seen @ new)"
        then obtain i where i: "i \<in> set seen \<union> set new" "(i, j) \<in> Rn\<^sup>*" by auto
        show "j \<in> Rn\<^sup>* `` set seen"
        proof (cases "i \<in> set seen")
          case True
          with i show ?thesis by auto
        next
          case False
          with i sub obtain i0 where "i0 \<in> set seen" "(i0, i) \<in> Rn\<^sup>*" by auto
          with i show ?thesis by (meson ImageI rtrancl_trans)
        qed
      qed
      show "Rn\<^sup>* `` set seen \<subseteq> Rn\<^sup>* `` set (seen @ new)" by auto
    qed
    finally have "set (closure n f (seen @ new) new) = Rn\<^sup>* `` set seen" .
    moreover have "closure n f seen front = closure n f (seen @ new) new"
      using False by (subst closure.simps) (simp add: new_def Let_def)
    ultimately show ?thesis by (simp add: Rn_def)
  qed
qed

lemma set_ends_Class:
  "set (ends (Class neg as) ic s ps) = char_step (\<lambda>c. class_has ic as c \<noteq> neg) s `` set ps"
  by (auto simp: char_step_def)

lemma char_step_bounded:
  "{(i, j). (i, j) \<in> char_step P s \<and> j \<le> length s} = char_step P s"
  by (auto simp: char_step_def)

lemma char_step_rtrancl:
  "((i, j) \<in> (char_step P s)\<^sup>*) = (i \<le> j \<and> run P s i j)"
proof
  assume "(i, j) \<in> (char_step P s)\<^sup>*"
  then show "i \<le> j \<and> run P s i j"
  proof (induction rule: rtrancl_induct)
    case base
    show ?case by (auto simp: run_def)
  next
    case (step y z)
    then show ?case
      by (auto simp: char_step_def run_def less_Suc_eq)
  qed
next
  assume a: "i \<le> j \<and> run P s i j"
  then have "i \<le> j" ..
  then show "(i, j) \<in> (char_step P s)\<^sup>*"
    using a
  proof (induction j rule: dec_induct)
    case base
    show ?case by simp
  next
    case (step m)
    from step.prems have "run P s i m" and "(m, Suc m) \<in> char_step P s"
      using step.hyps by (auto simp: run_def char_step_def)
    with step.IH step.hyps show ?case
      by (meson rtrancl.rtrancl_into_rtrancl)
  qed
qed

lemma set_ends_Plus_Class:
  "set (ends (Plus (Class neg as)) ic s ps) =
     {j. \<exists>i\<in>set ps. i < j \<and> run (\<lambda>c. class_has ic as c \<noteq> neg) s i j}"
proof -
  let ?P = "\<lambda>c. class_has ic as c \<noteq> neg"
  let ?f = "ends (Class neg as) ic s"
  let ?base = "remdups (?f ps)"
  have "set (closure (length s) ?f ?base ?base)
          = {(i, j). (i, j) \<in> char_step ?P s \<and> j \<le> length s}\<^sup>* `` set ?base"
    by (rule closure_set) (simp_all only: set_ends_Class, simp_all)
  then have "set (ends (Plus (Class neg as)) ic s ps)
          = (char_step ?P s)\<^sup>* `` (char_step ?P s `` set ps)"
    by (simp add: char_step_bounded set_ends_Class Let_def del: ends.simps(2))
  also have "\<dots> = {j. \<exists>i\<in>set ps. i < j \<and> run ?P s i j}"
  proof (rule set_eqI, rule iffI)
    fix j assume "j \<in> (char_step ?P s)\<^sup>* `` (char_step ?P s `` set ps)"
    then obtain i where i: "i \<in> set ps" "(i, Suc i) \<in> char_step ?P s"
        "(Suc i, j) \<in> (char_step ?P s)\<^sup>*"
      by (auto simp: char_step_def)
    then have "(i, j) \<in> (char_step ?P s)\<^sup>*" by (meson converse_rtrancl_into_rtrancl)
    then have "run ?P s i j" by (simp only: char_step_rtrancl)
    moreover from i(3) have "Suc i \<le> j" by (simp only: char_step_rtrancl)
    ultimately have "i \<in> set ps \<and> i < j \<and> run ?P s i j" using i(1) by simp
    then show "j \<in> {j. \<exists>i\<in>set ps. i < j \<and> run ?P s i j}" by blast
  next
    fix j assume "j \<in> {j. \<exists>i\<in>set ps. i < j \<and> run ?P s i j}"
    then obtain i where i: "i \<in> set ps" "i < j" "run ?P s i j" by auto
    then have "(i, Suc i) \<in> char_step ?P s" "Suc i \<le> j \<and> run ?P s (Suc i) j"
      by (auto simp: char_step_def run_def)
    then have "(i, Suc i) \<in> char_step ?P s" "(Suc i, j) \<in> (char_step ?P s)\<^sup>*"
      by (simp_all add: char_step_rtrancl)
    with i show "j \<in> (char_step ?P s)\<^sup>* `` (char_step ?P s `` set ps)" by blast
  qed
  finally show ?thesis .
qed

lemma class_simps:
  "class_has False [Lit CHR ''-'', Word_class] c = is_name_char c"
  "class_has False [Digit_class] c = is_digit c"
  "class_has False [Lit x] c = (c = x)"
  by (auto simp: class_has_def is_name_char_def)

lemma set_ends_Chr:
  "set (ends (Chr x) False s ps) = {j. \<exists>i\<in>set ps. j = Suc i \<and> i < length s \<and> s ! i = x}"
  by (auto simp: class_simps)

lemma set_ends_names:
  "set (ends (Plus (Class False [Lit CHR ''-'', Word_class])) False s ps)
     = {j. \<exists>i\<in>set ps. i < j \<and> run is_name_char s i j}"
  by (simp only: set_ends_Plus_Class class_simps) simp

lemma set_ends_digits:
  "set (ends (Plus (Class False [Digit_class])) False s ps)
     = {j. \<exists>i\<in>set ps. i < j \<and> run is_digit s i j}"
  by (simp only: set_ends_Plus_Class class_simps) simp

lemma set_ends_Opt:
  "set (ends (Opt r) ic s ps) = set ps \<union> set (ends r ic s (remdups ps))"
  by (simp add: Let_def)

lemma set_ends_owner_repo:
  "set (ends (Seqs [Plus (Class False [Lit CHR ''-'', Word_class]), Chr CHR ''/'',
                    Plus (Class False [Lit CHR ''-'', Word_class])]) False s ps)
     = {j. \<exists>i\<in>set ps. owner_repo_at s i j}"
  unfolding owner_repo_at_def
  apply (simp only: foldr.simps o_apply id_apply ends.simps(1,6) set_ends_names set_ends_Chr)
  apply (rule set_eqI)
  apply (simp only: mem_Collect_eq)
  by auto

lemma test_ISSUE_PATTERN:
  "test ISSUE_PATTERN s =
     (\<exists>h. (h = 0 \<or> owner_repo_at s 0 h) \<and> h < length s \<and> s ! h = CHR ''#''
          \<and> Suc h < length s \<and> run is_digit s (Suc h) (length s))"
proof -
  have "test ISSUE_PATTERN s = (set (ends (pattern ISSUE_PATTERN) False s [0..<Suc (length s)]) \<noteq> {})"
    by (simp add: test_def ISSUE_PATTERN_def del: ends.simps upt_Suc)
  also have "\<dots> = (\<exists>h. (h = 0 \<or> owner_repo_at s 0 h) \<and> h < length s \<and> s ! h = CHR ''#''
          \<and> Suc h < length s \<and> run is_digit s (Suc h) (length s))"
    unfolding ISSUE_PATTERN_def
    apply (simp only: regexp.simps foldr.simps o_apply id_apply ends.simps(1,3,4,6) set_ends_Opt set_ends_digits
        set_ends_Chr set_ends_names set_filter set_remdups owner_repo_at_def)
    apply (simp del: upt_Suc)
    by auto
  finally show ?thesis .
qed

lemma list_all_drop_take:
  assumes "b \<le> length s"
  shows "list_all P (drop a (take b s)) = run P s a b"
proof -
  have "list_all P (drop a (take b s)) = (\<forall>k<b - a. P (s ! (a + k)))"
    using assms by (simp add: list_all_length min_absorb2)
  also have "\<dots> = run P s a b"
    unfolding run_def
  proof (intro iffI allI impI)
    fix k assume h: "\<forall>k<b - a. P (s ! (a + k))" and k: "a \<le> k \<and> k < b"
    then have "k - a < b - a" by arith
    with h have "P (s ! (a + (k - a)))" by blast
    with k assms show "k < length s \<and> P (s ! k)" by simp
  next
    fix k assume h: "\<forall>k. a \<le> k \<and> k < b \<longrightarrow> k < length s \<and> P (s ! k)" and "k < b - a"
    then have "a \<le> a + k \<and> a + k < b" by arith
    with h show "P (s ! (a + k))" by blast
  qed
  finally show ?thesis .
qed

lemma list_all_drop: "list_all P (drop a s) = run P s a (length s)"
  using list_all_drop_take [of "length s" s P a] by simp

lemma list_all_take: "m \<le> length s \<Longrightarrow> list_all P (take m s) = run P s 0 m"
  using list_all_drop_take [of m s P 0] by simp

lemma is_owner_repo_take:
  assumes "h \<le> length tok"
  shows "is_owner_repo (take h tok) = owner_repo_at tok 0 h"
proof -
  have len: "length (take h tok) = h"
    using assms by simp
  have "is_owner_repo (take h tok) =
          (\<exists>m\<in>{0..<h}. take h tok ! m = CHR ''/'' \<and> 0 < m \<and> Suc m < h
                 \<and> list_all is_name_char (take m (take h tok))
                 \<and> list_all is_name_char (drop (Suc m) (take h tok)))"
    unfolding is_owner_repo_def list_ex_iff len by simp
  also have "\<dots> = (\<exists>m\<in>{0..<h}. tok ! m = CHR ''/'' \<and> 0 < m \<and> Suc m < h
                 \<and> run is_name_char tok 0 m \<and> run is_name_char tok (Suc m) h)"
  proof (rule bex_cong [OF refl])
    fix m assume "m \<in> {0..<h}"
    then have m: "m < h" "m \<le> length tok" "min m h = m"
      using assms by auto
    then have "take m (take h tok) = take m tok" "take h tok ! m = tok ! m"
      by simp_all
    then show "(take h tok ! m = CHR ''/'' \<and> 0 < m \<and> Suc m < h
                 \<and> list_all is_name_char (take m (take h tok))
                 \<and> list_all is_name_char (drop (Suc m) (take h tok)))
             = (tok ! m = CHR ''/'' \<and> 0 < m \<and> Suc m < h
                 \<and> run is_name_char tok 0 m \<and> run is_name_char tok (Suc m) h)"
      using assms m by (simp add: list_all_drop_take list_all_take)
  qed
  also have "\<dots> = owner_repo_at tok 0 h"
  proof
    assume "\<exists>m\<in>{0..<h}. tok ! m = CHR ''/'' \<and> 0 < m \<and> Suc m < h
                 \<and> run is_name_char tok 0 m \<and> run is_name_char tok (Suc m) h"
    then obtain m where "m < h" "tok ! m = CHR ''/''" "0 < m" "Suc m < h"
        "run is_name_char tok 0 m" "run is_name_char tok (Suc m) h"
      by auto
    with assms have "0 < m \<and> run is_name_char tok 0 m \<and> m < length tok \<and> tok ! m = CHR ''/''
          \<and> Suc m < h \<and> run is_name_char tok (Suc m) h"
      by simp
    then show "owner_repo_at tok 0 h"
      unfolding owner_repo_at_def by (rule exI)
  next
    assume "owner_repo_at tok 0 h"
    then obtain m where m: "0 < m" "run is_name_char tok 0 m" "m < length tok"
        "tok ! m = CHR ''/''" "Suc m < h" "run is_name_char tok (Suc m) h"
      unfolding owner_repo_at_def by blast
    then have "m \<in> {0..<h}" by simp
    with m show "\<exists>m\<in>{0..<h}. tok ! m = CHR ''/'' \<and> 0 < m \<and> Suc m < h
                 \<and> run is_name_char tok 0 m \<and> run is_name_char tok (Suc m) h"
      by blast
  qed
  finally show ?thesis .
qed

lemma test_ISSUE_PATTERN_is_issue_reference: "test ISSUE_PATTERN tok = is_issue_reference tok"
proof -
  have "is_issue_reference tok =
          (\<exists>h\<in>{0..<length tok}. tok ! h = CHR ''#'' \<and> Suc h < length tok
              \<and> list_all is_digit (drop (Suc h) tok) \<and> (h = 0 \<or> is_owner_repo (take h tok)))"
    unfolding is_issue_reference_def list_ex_iff by simp
  also have "\<dots> = (\<exists>h\<in>{0..<length tok}. (h = 0 \<or> owner_repo_at tok 0 h) \<and> h < length tok
              \<and> tok ! h = CHR ''#'' \<and> Suc h < length tok \<and> run is_digit tok (Suc h) (length tok))"
  proof (rule bex_cong [OF refl])
    fix h assume "h \<in> {0..<length tok}"
    then have h: "h < length tok" "h \<le> length tok" by simp_all
    show "(tok ! h = CHR ''#'' \<and> Suc h < length tok
              \<and> list_all is_digit (drop (Suc h) tok) \<and> (h = 0 \<or> is_owner_repo (take h tok)))
        = ((h = 0 \<or> owner_repo_at tok 0 h) \<and> h < length tok
              \<and> tok ! h = CHR ''#'' \<and> Suc h < length tok \<and> run is_digit tok (Suc h) (length tok))"
      using h by (simp only: list_all_drop is_owner_repo_take) blast
  qed
  also have "\<dots> = (\<exists>h. (h = 0 \<or> owner_repo_at tok 0 h) \<and> h < length tok
              \<and> tok ! h = CHR ''#'' \<and> Suc h < length tok \<and> run is_digit tok (Suc h) (length tok))"
    by (simp only: Bex_def atLeastLessThan_iff) blast
  finally show ?thesis
    by (simp only: test_ISSUE_PATTERN)
qed

text \<open>
  The executable \<open>is_issue_reference\<close> and \<open>is_owner_repo\<close> search for the position of the
  separator; they say that the token is a prefix, a \<open>#\<close> and digits, and that the prefix
  is an owner, a \<open>/\<close> and a repository name.
\<close>

lemma split_at_char:
  "(\<exists>h\<in>{0..<length s}. s ! h = c \<and> Q (take h s) (drop (Suc h) s))
     = (\<exists>a b. s = a @ c # b \<and> Q a b)"
proof
  assume "\<exists>h\<in>{0..<length s}. s ! h = c \<and> Q (take h s) (drop (Suc h) s)"
  then obtain h where h: "h < length s" "s ! h = c" "Q (take h s) (drop (Suc h) s)"
    by auto
  then have "s = take h s @ c # drop (Suc h) s"
    by (metis id_take_nth_drop)
  with h(3) show "\<exists>a b. s = a @ c # b \<and> Q a b" by blast
next
  assume "\<exists>a b. s = a @ c # b \<and> Q a b"
  then obtain a b where ab: "s = a @ c # b" "Q a b" by blast
  then have "length a \<in> {0..<length s}" "s ! length a = c"
      "take (length a) s = a" "drop (Suc (length a)) s = b"
    by simp_all
  with ab(2) show "\<exists>h\<in>{0..<length s}. s ! h = c \<and> Q (take h s) (drop (Suc h) s)"
    by metis
qed

lemma is_owner_repo_iff:
  "is_owner_repo pre =
     (\<exists>owner repo. pre = owner @ CHR ''/'' # repo \<and> owner \<noteq> [] \<and> repo \<noteq> []
         \<and> list_all is_name_char owner \<and> list_all is_name_char repo)"
proof -
  have "is_owner_repo pre =
          (\<exists>m\<in>{0..<length pre}. pre ! m = CHR ''/''
              \<and> (take m pre \<noteq> [] \<and> drop (Suc m) pre \<noteq> []
                  \<and> list_all is_name_char (take m pre)
                  \<and> list_all is_name_char (drop (Suc m) pre)))"
    unfolding is_owner_repo_def list_ex_iff
    by (intro bex_cong) auto
  also have "\<dots> = (\<exists>owner repo. pre = owner @ CHR ''/'' # repo \<and> owner \<noteq> [] \<and> repo \<noteq> []
         \<and> list_all is_name_char owner \<and> list_all is_name_char repo)"
    by (rule split_at_char
        [of pre "CHR ''/''" "\<lambda>a b. a \<noteq> [] \<and> b \<noteq> [] \<and> list_all is_name_char a \<and> list_all is_name_char b"])
  finally show ?thesis .
qed

lemma is_issue_reference_iff:
  "is_issue_reference tok =
     (\<exists>pre ds. tok = pre @ CHR ''#'' # ds \<and> ds \<noteq> [] \<and> list_all is_digit ds
         \<and> (pre = []
             \<or> (\<exists>owner repo. pre = owner @ CHR ''/'' # repo \<and> owner \<noteq> [] \<and> repo \<noteq> []
                   \<and> list_all is_name_char owner \<and> list_all is_name_char repo)))"
proof -
  have "is_issue_reference tok =
          (\<exists>h\<in>{0..<length tok}. tok ! h = CHR ''#''
              \<and> (drop (Suc h) tok \<noteq> [] \<and> list_all is_digit (drop (Suc h) tok)
                  \<and> (take h tok = [] \<or> is_owner_repo (take h tok))))"
    unfolding is_issue_reference_def list_ex_iff
    by (intro bex_cong) auto
  also have "\<dots> = (\<exists>pre ds. tok = pre @ CHR ''#'' # ds
         \<and> (ds \<noteq> [] \<and> list_all is_digit ds \<and> (pre = [] \<or> is_owner_repo pre)))"
    by (rule split_at_char
        [of tok "CHR ''#''" "\<lambda>a b. b \<noteq> [] \<and> list_all is_digit b \<and> (a = [] \<or> is_owner_repo a)"])
  finally show ?thesis
    by (simp only: is_owner_repo_iff)
qed

subsection \<open>The evaluators\<close>

lemma isLongEnough_iff: "isLongEnough str n = (n < int (length str))"
  by (simp add: isLongEnough_def or_empty_def)

lemma validateTitle_isl:
  "isl (validateTitle title checks) =
     (length_check_enabled (title_minimum_length checks)
      \<and> int (length title) \<le> required_length (title_minimum_length checks))"
  by (auto simp: validateTitle_def Let_def default_def no_length_check_def isLongEnough_iff
      length_check_enabled_def required_length_def DEFAULT_REQUIRED_LENGTH_def
      split: option.splits)

lemma names_distinct:
  "CONTAINS_URL \<noteq> CONTAINS_ISSUE_NUMBER" "CONTAINS_URL \<noteq> MINIMUM_LENGTH"
  "CONTAINS_ISSUE_NUMBER \<noteq> MINIMUM_LENGTH" "CONTAINS_ISSUE_NUMBER \<noteq> CONTAINS_URL"
  "MINIMUM_LENGTH \<noteq> CONTAINS_URL" "MINIMUM_LENGTH \<noteq> CONTAINS_ISSUE_NUMBER"
  by (simp_all add: CONTAINS_URL_def CONTAINS_ISSUE_NUMBER_def MINIMUM_LENGTH_def)

lemma reduce_three:
  assumes "m = map_of [(CONTAINS_URL, \<lparr>enabled = eu, check_fn = fu\<rparr>),
                       (CONTAINS_ISSUE_NUMBER, \<lparr>enabled = ei, check_fn = fi\<rparr>),
                       (MINIMUM_LENGTH, \<lparr>enabled = el, check_fn = fl\<rparr>)]"
  shows "foldl (reducer m) (Inr (False, [])) [CONTAINS_ISSUE_NUMBER, CONTAINS_URL, MINIMUM_LENGTH]
       = Inr ((ei \<and> fi ()) \<or> (eu \<and> fu ()) \<or> (el \<and> fl ()),
              (if ei \<and> \<not> fi () then [[CHR 0x27] @ CONTAINS_ISSUE_NUMBER @ [CHR 0x27]] else [])
              @ (if eu \<and> \<not> fu () then [[CHR 0x27] @ CONTAINS_URL @ [CHR 0x27]] else [])
              @ (if el \<and> \<not> fl () then [[CHR 0x27] @ MINIMUM_LENGTH @ [CHR 0x27]] else []))"
  unfolding assms by (simp add: reducer_def names_distinct Let_def)

lemma default_simps: "default d None = d" "default d (Some v) = v"
  by (simp_all add: default_def)

lemma body_switches:
  "default True (contains_issue_number checks) = issue_check_enabled checks"
  "default True (contains_url checks) = url_check_enabled checks"
  "default True (lc_enabled (default no_length_check entry)) = length_check_enabled entry"
  "default DEFAULT_REQUIRED_LENGTH (lc_length (default no_length_check entry)) = required_length entry"
  by (auto simp: default_def issue_check_enabled_def url_check_enabled_def
      length_check_enabled_def required_length_def no_length_check_def
      DEFAULT_REQUIRED_LENGTH_def split: option.splits)

lemma validateBody_eq:
  "validateBody body checks =
     (if any_passes body checks then Inr ()
      else Inl (Error (''PR's body failed check '' @
        first_or_undefined
          ((if issue_check_enabled checks then [[CHR 0x27] @ CONTAINS_ISSUE_NUMBER @ [CHR 0x27]] else [])
           @ (if url_check_enabled checks then [[CHR 0x27] @ CONTAINS_URL @ [CHR 0x27]] else [])
           @ (if length_check_enabled (body_minimum_length checks)
              then [[CHR 0x27] @ MINIMUM_LENGTH @ [CHR 0x27]] else [])))))"
  unfolding validateBody_def Let_def body_switches
  by (subst reduce_three [OF refl]) (auto simp: any_passes_def isLongEnough_iff)

subsection \<open>The orchestration\<close>

lemma validate_cases:
  "validate gh config pr repo token =
     (let user = repo_owner_login repo; name = repo_name repo; sha = pr_head_sha pr;
          fetch = ReadPullRequestTemplate user name token;
          write = (\<lambda>trace st. (trace @ [SetCommitStatus user name sha st token],
                                 setCommitStatus gh user name sha st token))
      in case validateTitle (title_of pr) (titleChecks_of config) of
           Inl e \<Rightarrow> write [Evaluate Title] (status (message e) (Some ''failure''))
         | Inr _ \<Rightarrow>
            (case validateBody (body_of pr) (bodyChecks_of config) of
               Inl e \<Rightarrow> write [Evaluate Title, Evaluate Template, fetch, Evaluate Body]
                          (status (message e) (Some ''failure''))
             | Inr _ \<Rightarrow>
                (case snd (validateTemplate gh (body_of pr) user name token (templateChecks_of config)) of
                   Inl e \<Rightarrow> write [Evaluate Title, Evaluate Template, fetch, Evaluate Body]
                              (status (message e) (Some ''failure''))
                 | Inr _ \<Rightarrow> write [Evaluate Title, Evaluate Template, fetch, Evaluate Body]
                              (status ''PR has passed specification checks'' None))))"
  by (simp add: validate_def validateTemplate_def Let_def split: sum.splits)

lemma status_simps:
  "st_context (status d s) = ''zappr/pr/specification''"
  "st_description (status d s) = d"
  "st_state (status d (Some x)) = x"
  "st_state (status d None) = ''success''"
  by (simp_all add: status_def default_def)

subsection \<open>Claims about the evaluators\<close>

text \<open>
  Claim C6. The title evaluator fails exactly when its length check is enabled and the
  title is not longer than the required length: a title of exactly the required length
  fails. With the check disabled every title passes. An absent \<^verbatim>\<open>minimum-length\<close> entry, or
  an absent field of it, means enabled with the required length 8.
\<close>

theorem validateTitle_fails_iff:
  "isl (validateTitle title checks) =
     (case title_minimum_length checks of
        None \<Rightarrow> int (length title) \<le> 8
      | Some lc \<Rightarrow>
          lc_enabled lc \<noteq> Some False
          \<and> int (length title) \<le> (case lc_length lc of None \<Rightarrow> 8 | Some n \<Rightarrow> n))"
  by (simp add: validateTitle_isl length_check_enabled_def required_length_def
      split: option.splits)

theorem validateTitle_fails_iff_witness:
  "isl (validateTitle ''Fix bug'' no_title_checks)
   \<and> \<not> isl (validateTitle ''Fix bugs!'' no_title_checks)
   \<and> isl (validateTitle ''Fix bugs'' no_title_checks)"
  using validateTitle_fails_iff [of "''Fix bug''" no_title_checks]
    validateTitle_fails_iff [of "''Fix bugs!''" no_title_checks]
    validateTitle_fails_iff [of "''Fix bugs''" no_title_checks]
  by (simp add: no_title_checks_def)

text \<open>
  Claim C4. The body evaluator passes exactly when at least one enabled sub-check (issue
  reference, URL, minimum length) returns true; with no sub-check enabled it fails.
\<close>

theorem validateBody_passes_iff:
  "(validateBody body checks = Inr ()) =
     ((issue_check_enabled checks \<and> containsIssueNumber body)
      \<or> (url_check_enabled checks \<and> containsUrl body)
      \<or> (length_check_enabled (body_minimum_length checks)
          \<and> isLongEnough body (required_length (body_minimum_length checks))))
   \<and> (\<not> issue_check_enabled checks \<and> \<not> url_check_enabled checks
        \<and> \<not> length_check_enabled (body_minimum_length checks)
      \<longrightarrow> validateBody body checks = Inl (Error ''PR's body failed check undefined''))"
  by (simp add: validateBody_eq any_passes_def isLongEnough_iff first_or_undefined_def)

theorem validateBody_passes_iff_witness:
  "\<not> issue_check_enabled
       \<lparr>body_minimum_length = Some \<lparr>lc_enabled = Some False, lc_length = None\<rparr>,
        contains_url = Some False, contains_issue_number = Some False\<rparr>
   \<and> validateBody ''See #42 for details''
       \<lparr>body_minimum_length = Some \<lparr>lc_enabled = Some False, lc_length = None\<rparr>,
        contains_url = Some False, contains_issue_number = Some False\<rparr>
     = Inl (Error ''PR's body failed check undefined'')"
  using validateBody_passes_iff [of "''See #42 for details''"
      "\<lparr>body_minimum_length = Some \<lparr>lc_enabled = Some False, lc_length = None\<rparr>,
        contains_url = Some False, contains_issue_number = Some False\<rparr>"]
  by (simp add: issue_check_enabled_def url_check_enabled_def length_check_enabled_def)

text \<open>
  Claim C5. When the body evaluator fails and at least one sub-check is enabled, the
  failure reason names the first enabled sub-check that fails, in the order issue number,
  URL, minimum length. The reason is a function of the body and the configuration.
\<close>

theorem validateBody_names_first_failing_check:
  assumes "validateBody body checks = Inl e"
    and "issue_check_enabled checks \<or> url_check_enabled checks
         \<or> length_check_enabled (body_minimum_length checks)"
  shows "\<exists>name. first_failing_check body checks = Some name
           \<and> e = Error (''PR's body failed check '' @ [CHR 0x27] @ name @ [CHR 0x27])"
  using assms
  by (auto simp: validateBody_eq any_passes_def first_failing_check_def sub_checks_def
      first_or_undefined_def CONTAINS_ISSUE_NUMBER_def CONTAINS_URL_def MINIMUM_LENGTH_def
      split: if_splits)

theorem validateBody_names_first_failing_check_witness:
  "validateBody ''short'' no_body_checks
     = Inl (Error (''PR's body failed check '' @ [CHR 0x27] @ ''contains-issue-number'' @ [CHR 0x27]))
   \<and> issue_check_enabled no_body_checks
   \<and> (\<exists>name. first_failing_check ''short'' no_body_checks = Some name
         \<and> Error (''PR's body failed check '' @ [CHR 0x27] @ ''contains-issue-number'' @ [CHR 0x27])
           = Error (''PR's body failed check '' @ [CHR 0x27] @ name @ [CHR 0x27]))"
proof -
  have fails: "validateBody ''short'' no_body_checks
     = Inl (Error (''PR's body failed check '' @ [CHR 0x27] @ ''contains-issue-number'' @ [CHR 0x27]))"
    by code_simp
  have enabled: "issue_check_enabled no_body_checks"
    by (simp add: issue_check_enabled_def no_body_checks_def)
  then have "issue_check_enabled no_body_checks \<or> url_check_enabled no_body_checks
         \<or> length_check_enabled (body_minimum_length no_body_checks)"
    by simp
  from validateBody_names_first_failing_check [OF fails this] fails enabled
  show ?thesis by simp
qed

lemma validateTemplate_settles:
  "snd (validateTemplate gh body user repo token checks) =
     (case readPullRequestTemplate gh user repo token of
        Inl e \<Rightarrow> Inl e
      | Inr None \<Rightarrow> Inr True
      | Inr (Some template) \<Rightarrow>
          if template \<noteq> [] \<and> was_adjusted checks = Some True \<and> trim body \<noteq> trim template
          then Inl (Error ''PR's body is the same as template'')
          else Inr True)"
  by (simp add: validateTemplate_def differsFromPrTemplate_def split: sum.splits option.splits)

lemma trim_examples:
  "trim ''Adds the login flow'' = ''Adds the login flow''"
  "trim ''Describe your change'' = ''Describe your change''"
  by (simp_all add: trim_def is_space_def)

text \<open>
  Claim C1. With a template and the was-adjusted check enabled, the specification asks
  for a failure exactly when the trimmed body equals the trimmed template. The code does
  the opposite: \<^verbatim>\<open>_validateTemplate\<close> throws "PR's body is the same as template" when
  \<^verbatim>\<open>_differsFromPrTemplate\<close> returns true, that is when the body differs. A body that
  differs from the template is rejected with that message, and a body that is the
  template passes.
\<close>

theorem validateTemplate_rejects_changed_body:
  "snd (validateTemplate (github_with (Inr (Some ''Describe your change'')))
          ''Adds the login flow'' ''zalando'' ''zappr'' ''token'' \<lparr>was_adjusted = Some True\<rparr>)
     = Inl (Error ''PR's body is the same as template'')
   \<and> snd (validateTemplate (github_with (Inr (Some ''Describe your change'')))
          ''Describe your change'' ''zalando'' ''zappr'' ''token'' \<lparr>was_adjusted = Some True\<rparr>)
     = Inr True"
  by (simp add: validateTemplate_settles github_with_def trim_examples)

text \<open>
  Claim C7. Every invocation of \<^verbatim>\<open>validate\<close> issues exactly one status write, with the
  context \<open>zappr/pr/specification\<close>. Its state is \<open>success\<close>, with the fixed description,
  exactly when all three evaluators pass; otherwise its state is \<open>failure\<close> and its
  description is the message of one failing evaluator.
\<close>

theorem validate_writes_one_status:
  fixes gh config pr repo token
  defines "T \<equiv> validateTitle (title_of pr) (titleChecks_of config)"
    and "B \<equiv> validateBody (body_of pr) (bodyChecks_of config)"
    and "P \<equiv> snd (validateTemplate gh (body_of pr) (repo_owner_login repo) (repo_name repo) token
                     (templateChecks_of config))"
  shows "\<exists>st. filter is_status_write (fst (validate gh config pr repo token))
                = [SetCommitStatus (repo_owner_login repo) (repo_name repo) (pr_head_sha pr) st token]
             \<and> st_context st = ''zappr/pr/specification''
             \<and> (st_state st = ''success'') = (\<not> isl T \<and> \<not> isl B \<and> \<not> isl P)
             \<and> (\<not> isl T \<and> \<not> isl B \<and> \<not> isl P
                  \<longrightarrow> st_description st = ''PR has passed specification checks'')
             \<and> (isl T \<or> isl B \<or> isl P
                  \<longrightarrow> st_state st = ''failure''
                      \<and> (\<exists>e. (T = Inl e \<or> B = Inl e \<or> P = Inl e) \<and> st_description st = message e))"
  unfolding T_def B_def P_def validate_cases Let_def
  by (auto simp: status_simps split: sum.splits)

lemma login_flow_title: "validateTitle (title_of (open_pr ''Implement login flow'' body)) (titleChecks_of default_config) = Inr ()"
  by (simp add: validateTitle_def titleChecks_of_def default_config_def default_simps
      no_specification_def no_title_checks_def no_length_check_def isLongEnough_iff
      DEFAULT_REQUIRED_LENGTH_def title_of_def open_pr_def)

lemma design_body:
  "validateBody (body_of (open_pr title ''See https://example.com/design for details''))
     (bodyChecks_of default_config) = Inr ()"
  by (simp add: validateBody_eq any_passes_def bodyChecks_of_def default_config_def default_simps
      no_specification_def no_body_checks_def length_check_enabled_def required_length_def
      body_of_def open_pr_def)

theorem validate_writes_one_status_witness:
  "\<exists>st. filter is_status_write
          (fst (validate (github_with (Inr None)) default_config
                  (open_pr ''Implement login flow'' ''See https://example.com/design for details'')
                  zappr_repo ''token''))
          = [SetCommitStatus ''zalando'' ''zappr'' ''c0ffee'' st ''token'']
        \<and> st_context st = ''zappr/pr/specification''
        \<and> st_state st = ''success''
        \<and> st_description st = ''PR has passed specification checks''"
proof -
  have "\<not> isl (snd (validateTemplate (github_with (Inr None))
          (body_of (open_pr ''Implement login flow'' ''See https://example.com/design for details''))
          (repo_owner_login zappr_repo) (repo_name zappr_repo) ''token''
          (templateChecks_of default_config)))"
    by (simp add: validateTemplate_settles github_with_def)
  with validate_writes_one_status [of "github_with (Inr None)" default_config
      "open_pr ''Implement login flow'' ''See https://example.com/design for details''"
      zappr_repo "''token''"]
  show ?thesis
    by (simp add: login_flow_title design_body) (simp add: zappr_repo_def open_pr_def)
qed

lemma fix_bug_title:
  "validateTitle (title_of (open_pr ''Fix bug'' body)) (titleChecks_of default_config)
     = Inl (Error ''PR's title is too short (7/8)'')"
  by (simp add: validateTitle_def titleChecks_of_def default_config_def default_simps
      no_specification_def no_title_checks_def no_length_check_def isLongEnough_iff
      DEFAULT_REQUIRED_LENGTH_def title_of_def open_pr_def string_of_int_def
      string_of_nat.simps digit_char_def)

lemma opened_simps:
  "action (opened pr) \<in> set ACTIONS" "pull_request (opened pr) = pr"
  "repository (opened pr) = zappr_repo" "pr_state (open_pr title body) = ''open''"
  "pr_head_sha (open_pr title body) = ''c0ffee''"
  "repo_owner_login zappr_repo = ''zalando''" "repo_name zappr_repo = ''zappr''"
  by (simp_all add: opened_def ACTIONS_def open_pr_def zappr_repo_def)

text \<open>
  What holds for every event that \<^verbatim>\<open>execute\<close> does not act on: no evaluator is invoked and
  no call to the service is issued, and with a pull request in the payload the call returns
  normally.
\<close>

lemma execute_ineligible_trace_empty:
  assumes "action hookPayload \<notin> set ACTIONS
           \<or> (\<forall>pr. pull_request hookPayload = Some pr \<longrightarrow> pr_state pr \<noteq> ''open'')"
  shows "fst (execute gh config hookPayload token) = []
         \<and> (pull_request hookPayload \<noteq> None \<longrightarrow> execute gh config hookPayload token = ([], Inr ()))"
  using assms by (auto simp: execute_def split: option.splits)

text \<open>
  Claim C8. For an event whose action is not one of opened, edited, reopened and
  synchronize, or whose pull request is not open, the call of \<^verbatim>\<open>execute\<close> is to be a no-op.
  The guard of \<^verbatim>\<open>execute\<close> has the disjunct \<^verbatim>\<open>!pr\<close>, so its branch is meant to cover a
  payload without a pull request; but the log line of that branch reads \<^verbatim>\<open>pr.number\<close> and
  \<^verbatim>\<open>pr.state\<close>. For a \<open>closed\<close> event without a pull request the call is therefore not a
  no-op: it issues no call, and then throws a TypeError instead of returning.
\<close>

theorem execute_closed_without_pull_request_throws:
  "action \<lparr>action = ''closed'', pull_request = None, repository = zappr_repo\<rparr> \<notin> set ACTIONS
   \<and> execute (github_with (Inr None)) default_config
        \<lparr>action = ''closed'', pull_request = None, repository = zappr_repo\<rparr> ''token''
      = ([], Inl (TypeError ''Cannot read property 'number' of undefined''))"
  by (simp add: execute_def ACTIONS_def)

theorem execute_closed_without_pull_request_throws_witness:
  "fst (execute (github_with (Inr None)) default_config
          \<lparr>action = ''closed'', pull_request = None, repository = zappr_repo\<rparr> ''token'') = []
   \<and> isl (snd (execute (github_with (Inr None)) default_config
          \<lparr>action = ''closed'', pull_request = None, repository = zappr_repo\<rparr> ''token''))"
  using execute_closed_without_pull_request_throws by simp

text \<open>
  Claim C10. When the payload has no pull request, \<^verbatim>\<open>execute\<close> does not return silently:
  the branch for events it does not act on reads \<^verbatim>\<open>pr.number\<close> for its log line, which
  throws a TypeError. No evaluator runs and no call is issued.
\<close>

theorem execute_without_pull_request_throws:
  assumes "pull_request hookPayload = None"
  shows "\<exists>m. execute gh config hookPayload token = ([], Inl (TypeError m))"
  using assms by (simp add: execute_def)

theorem execute_without_pull_request_throws_witness:
  "pull_request (opened None) = None
   \<and> (\<exists>m. execute (github_with (Inr None)) default_config (opened None) ''token''
            = ([], Inl (TypeError m)))"
proof -
  have h: "pull_request (opened None) = None"
    by (simp add: opened_def)
  from execute_without_pull_request_throws [OF h] h show ?thesis by blast
qed

text \<open>
  Claim C3 says that all three evaluators run, and the template is fetched, on every run.
  A title that is too short refutes it: the title evaluator throws while the array for
  \<^verbatim>\<open>Promise.all\<close> is still being built, so the run consists of the title evaluator and the
  status write.
\<close>

theorem short_title_skips_template_fetch:
  "fst (execute (github_with (Inr None)) default_config
          (opened (Some (open_pr ''Fix bug'' ''Fixes #42 and adds tests''))) ''token'')
     = [Evaluate Title,
        SetCommitStatus ''zalando'' ''zappr'' ''c0ffee''
          \<lparr>st_description = ''PR's title is too short (7/8)'', st_state = ''failure'',
           st_context = ''zappr/pr/specification''\<rparr> ''token'']"
  by (simp add: execute_def validate_cases opened_simps fix_bug_title status_def default_simps Let_def)

text \<open>
  Claim C3, amended. For an event that \<^verbatim>\<open>execute\<close> acts on, the evaluators are invoked in
  the order title, template, body, and a failure of the title evaluator ends the run before
  the other two: the template and body evaluators run, and the template is fetched (once),
  exactly when the title evaluator passes. A failure of the body evaluator does not prevent
  the fetch, which is issued before the body evaluator runs.
\<close>

theorem fetch_issued_iff_title_passes:
  assumes "action hookPayload \<in> set ACTIONS" and "pull_request hookPayload = Some pr"
    and "pr_state pr = ''open''"
  shows "evaluators_run (fst (execute gh config hookPayload token))
           = (if validateTitle (title_of pr) (titleChecks_of config) = Inr ()
              then [Title, Template, Body] else [Title])
       \<and> filter is_fetch (fst (execute gh config hookPayload token))
           = (if validateTitle (title_of pr) (titleChecks_of config) = Inr ()
              then [ReadPullRequestTemplate (repo_owner_login (repository hookPayload))
                      (repo_name (repository hookPayload)) token]
              else [])
       \<and> filter (\<lambda>e. \<not> is_status_write e) (fst (execute gh config hookPayload token))
           = (if validateTitle (title_of pr) (titleChecks_of config) = Inr ()
              then [Evaluate Title, Evaluate Template,
                    ReadPullRequestTemplate (repo_owner_login (repository hookPayload))
                      (repo_name (repository hookPayload)) token,
                    Evaluate Body]
              else [Evaluate Title])"
  using assms unfolding execute_def validate_cases Let_def
  by (auto split: sum.splits)

theorem fetch_issued_iff_title_passes_witness:
  "action (opened (Some (open_pr ''Implement login flow'' ''short''))) \<in> set ACTIONS
   \<and> validateBody ''short'' (bodyChecks_of default_config)
       = Inl (Error (''PR's body failed check '' @ [CHR 0x27] @ ''contains-issue-number'' @ [CHR 0x27]))
   \<and> evaluators_run (fst (execute (github_with (Inr None)) default_config
        (opened (Some (open_pr ''Implement login flow'' ''short''))) ''token''))
       = [Title, Template, Body]
   \<and> filter is_fetch (fst (execute (github_with (Inr None)) default_config
        (opened (Some (open_pr ''Implement login flow'' ''short''))) ''token''))
       = [ReadPullRequestTemplate ''zalando'' ''zappr'' ''token'']"
proof -
  have body: "validateBody ''short'' (bodyChecks_of default_config)
       = Inl (Error (''PR's body failed check '' @ [CHR 0x27] @ ''contains-issue-number'' @ [CHR 0x27]))"
    by code_simp
  from fetch_issued_iff_title_passes [of "opened (Some (open_pr ''Implement login flow'' ''short''))"
      "open_pr ''Implement login flow'' ''short''" "github_with (Inr None)" default_config "''token''"]
    body
  show ?thesis
    by (simp add: opened_simps login_flow_title)
qed

text \<open>
  Claim C2 says that an error of the template fetch leaves \<^verbatim>\<open>execute\<close> as a fatal error
  with no status write. The \<^verbatim>\<open>catch\<close> of \<^verbatim>\<open>validate\<close> does not tell a rule failure from any
  other error: with a passing title and body and a fetch rejected with "Bad credentials",
  a failure status with that description is written and \<^verbatim>\<open>execute\<close> returns normally.
\<close>

theorem fetch_error_becomes_failure_status:
  "execute (github_with (Inl (Error ''Bad credentials''))) default_config
     (opened (Some (open_pr ''Implement login flow''
                      ''See https://example.com/design for details''))) ''token''
   = ([Evaluate Title, Evaluate Template,
       ReadPullRequestTemplate ''zalando'' ''zappr'' ''token'', Evaluate Body,
       SetCommitStatus ''zalando'' ''zappr'' ''c0ffee''
         \<lparr>st_description = ''Bad credentials'', st_state = ''failure'',
          st_context = ''zappr/pr/specification''\<rparr> ''token''],
      Inr ())"
  by (simp add: execute_def validate_cases opened_simps login_flow_title design_body
      validateTemplate_settles github_with_def status_def default_simps Let_def)

text \<open>
  Claim C2, amended. For an event that \<^verbatim>\<open>execute\<close> acts on, with a passing title and body:
  when the template fetch fails, the error is caught in \<^verbatim>\<open>validate\<close> and becomes the one
  status write of the run, a failure whose description is the message of the error.
  \<^verbatim>\<open>execute\<close> settles as that status write does, so it fails only if the write fails.
\<close>

theorem fetch_error_is_reported_as_failure:
  assumes "action hookPayload \<in> set ACTIONS" and "pull_request hookPayload = Some pr"
    and "pr_state pr = ''open''"
    and "validateTitle (title_of pr) (titleChecks_of config) = Inr ()"
    and "validateBody (body_of pr) (bodyChecks_of config) = Inr ()"
    and "readPullRequestTemplate gh (repo_owner_login (repository hookPayload))
           (repo_name (repository hookPayload)) token = Inl e"
  shows "execute gh config hookPayload token =
     ([Evaluate Title, Evaluate Template,
       ReadPullRequestTemplate (repo_owner_login (repository hookPayload))
         (repo_name (repository hookPayload)) token,
       Evaluate Body,
       SetCommitStatus (repo_owner_login (repository hookPayload)) (repo_name (repository hookPayload))
         (pr_head_sha pr) (status (message e) (Some ''failure'')) token],
      setCommitStatus gh (repo_owner_login (repository hookPayload)) (repo_name (repository hookPayload))
         (pr_head_sha pr) (status (message e) (Some ''failure'')) token)"
  using assms unfolding execute_def validate_cases Let_def
  by (simp add: validateTemplate_def)

theorem fetch_error_is_reported_as_failure_witness:
  "readPullRequestTemplate
       \<lparr>readPullRequestTemplate = (\<lambda>user repo token. Inl (Error ''Not Found'')),
        setCommitStatus = (\<lambda>user repo sha st token. Inl (Error ''Service Unavailable''))\<rparr>
       ''zalando'' ''zappr'' ''token'' = Inl (Error ''Not Found'')
   \<and> execute
       \<lparr>readPullRequestTemplate = (\<lambda>user repo token. Inl (Error ''Not Found'')),
        setCommitStatus = (\<lambda>user repo sha st token. Inl (Error ''Service Unavailable''))\<rparr>
       default_config
       (opened (Some (open_pr ''Implement login flow''
                        ''See https://example.com/design for details''))) ''token''
     = ([Evaluate Title, Evaluate Template,
         ReadPullRequestTemplate ''zalando'' ''zappr'' ''token'', Evaluate Body,
         SetCommitStatus ''zalando'' ''zappr'' ''c0ffee''
           \<lparr>st_description = ''Not Found'', st_state = ''failure'',
            st_context = ''zappr/pr/specification''\<rparr> ''token''],
        Inl (Error ''Service Unavailable''))"
  using fetch_error_is_reported_as_failure
    [of "opened (Some (open_pr ''Implement login flow''
                        ''See https://example.com/design for details''))"
      "open_pr ''Implement login flow'' ''See https://example.com/design for details''"
      default_config
      "\<lparr>readPullRequestTemplate = (\<lambda>user repo token. Inl (Error ''Not Found'')),
        setCommitStatus = (\<lambda>user repo sha st token. Inl (Error ''Service Unavailable''))\<rparr>"
      "''token''" "Error ''Not Found''"]
  by (simp add: opened_simps login_flow_title design_body status_def default_simps)

text \<open>
  Claim C9 says that the body is split on whitespace. The source splits at the space
  character only, so an issue reference that follows a line feed is part of a longer token
  and is not found, while a split on whitespace would find it.
\<close>

theorem issue_reference_after_line_feed_not_found:
  "\<not> containsIssueNumber (''Fixes'' @ [CHR 0x0A] @ ''#42'')
   \<and> containsIssueNumber_on_whitespace (''Fixes'' @ [CHR 0x0A] @ ''#42'')"
  by code_simp

text \<open>
  Claim C9, amended. The issue-reference sub-check returns true exactly when the body,
  split at every space character, has a token that as a whole is an issue reference: an
  optional owner/repo prefix followed by \<open>#\<close> and one or more digits
  (\<open>is_issue_reference_iff\<close> spells the token out).
\<close>

theorem containsIssueNumber_splits_at_spaces:
  "containsIssueNumber body = list_ex is_issue_reference (split_on (\<lambda>c. c = CHR '' '') body)"
  by (simp add: containsIssueNumber_def containsPattern_def or_empty_def
      test_ISSUE_PATTERN_is_issue_reference)

theorem containsIssueNumber_splits_at_spaces_witness:
  "list_ex is_issue_reference (split_on (\<lambda>c. c = CHR '' '') ''Fixes zalando/zappr#42'')
   \<and> containsIssueNumber ''Fixes zalando/zappr#42''"
proof -
  have "list_ex is_issue_reference (split_on (\<lambda>c. c = CHR '' '') ''Fixes zalando/zappr#42'')"
    by code_simp
  with containsIssueNumber_splits_at_spaces [of "''Fixes zalando/zappr#42''"]
  show ?thesis by simp
qed

end
